theory Spec2Isabelle
  imports Complex_Main "HOL-Library.Multiset" "HOL-Library.Log_Nat"
begin

section \<open>JavaScript numbers and values\<close>

text \<open>
  The functions of \<^verbatim>\<open>src/utils/mlUtils.ts\<close> compute on JavaScript numbers. A finite number
  is modelled by a rational (the sign of zero is not modelled); the three special values of
  IEEE arithmetic are kept, because the code never checks for a zero divisor and its results
  then are \<open>NaN\<close> or an infinity. The operations \<open>jadd\<close>, \<open>jsub\<close>, \<open>jmul\<close> and \<open>jdiv\<close> are
  exact. The train-test split, whose row counts and index draws depend on the last bit of a
  product, uses \<open>dadd\<close>, \<open>dsub\<close>, \<open>dmul\<close> and \<open>ddiv\<close> instead, which round every result
  to the nearest double as the machine does.

  Reading a number array out of range gives \<^verbatim>\<open>undefined\<close>, which every arithmetic operator
  and \<^verbatim>\<open>Math.abs\<close> turn into \<open>NaN\<close>; all such reads of the code feed arithmetic, so the
  model reads \<open>NaN\<close> there (\<open>aget\<close>). A write past the end extends the array (\<open>aset\<close>).
\<close>

datatype jsnum = Fin rat | PInf | NInf | NaN

fun isNaN :: "jsnum \<Rightarrow> bool" where
  "isNaN NaN = True"
| "isNaN _ = False"

fun jneg :: "jsnum \<Rightarrow> jsnum" where
  "jneg (Fin a) = Fin (- a)"
| "jneg PInf = NInf"
| "jneg NInf = PInf"
| "jneg NaN = NaN"

fun jadd :: "jsnum \<Rightarrow> jsnum \<Rightarrow> jsnum" where
  "jadd NaN _ = NaN"
| "jadd _ NaN = NaN"
| "jadd (Fin a) (Fin b) = Fin (a + b)"
| "jadd (Fin a) PInf = PInf"
| "jadd (Fin a) NInf = NInf"
| "jadd PInf NInf = NaN"
| "jadd NInf PInf = NaN"
| "jadd PInf _ = PInf"
| "jadd NInf _ = NInf"

definition jsub :: "jsnum \<Rightarrow> jsnum \<Rightarrow> jsnum" where
  "jsub a b = jadd a (jneg b)"

fun jmul :: "jsnum \<Rightarrow> jsnum \<Rightarrow> jsnum" where
  "jmul NaN _ = NaN"
| "jmul _ NaN = NaN"
| "jmul (Fin a) (Fin b) = Fin (a * b)"
| "jmul (Fin a) PInf = (if a = 0 then NaN else if 0 < a then PInf else NInf)"
| "jmul (Fin a) NInf = (if a = 0 then NaN else if 0 < a then NInf else PInf)"
| "jmul PInf (Fin b) = (if b = 0 then NaN else if 0 < b then PInf else NInf)"
| "jmul NInf (Fin b) = (if b = 0 then NaN else if 0 < b then NInf else PInf)"
| "jmul PInf PInf = PInf"
| "jmul PInf NInf = NInf"
| "jmul NInf PInf = NInf"
| "jmul NInf NInf = PInf"

fun jdiv :: "jsnum \<Rightarrow> jsnum \<Rightarrow> jsnum" where
  "jdiv NaN _ = NaN"
| "jdiv _ NaN = NaN"
| "jdiv (Fin a) (Fin b) =
     (if b = 0 then (if a = 0 then NaN else if 0 < a then PInf else NInf) else Fin (a / b))"
| "jdiv (Fin a) _ = Fin 0"
| "jdiv PInf (Fin b) = (if 0 \<le> b then PInf else NInf)"
| "jdiv NInf (Fin b) = (if 0 \<le> b then NInf else PInf)"
| "jdiv _ _ = NaN"

text \<open>The remainder operator \<^verbatim>\<open>%\<close>: truncated division, the sign of the dividend.\<close>

definition rat_trunc :: "rat \<Rightarrow> int" where
  "rat_trunc q = (if 0 \<le> q then \<lfloor>q\<rfloor> else \<lceil>q\<rceil>)"

fun jmod :: "jsnum \<Rightarrow> jsnum \<Rightarrow> jsnum" where
  "jmod (Fin a) (Fin b) = (if b = 0 then NaN else Fin (a - b * of_int (rat_trunc (a / b))))"
| "jmod (Fin a) PInf = Fin a"
| "jmod (Fin a) NInf = Fin a"
| "jmod _ _ = NaN"

fun jabs :: "jsnum \<Rightarrow> jsnum" where
  "jabs (Fin a) = Fin \<bar>a\<bar>"
| "jabs PInf = PInf"
| "jabs NInf = PInf"
| "jabs NaN = NaN"

fun jfloor :: "jsnum \<Rightarrow> jsnum" where
  "jfloor (Fin a) = Fin (of_int \<lfloor>a\<rfloor>)"
| "jfloor x = x"

text \<open>\<^verbatim>\<open>Math.pow(x, 2)\<close>.\<close>

definition pow2 :: "jsnum \<Rightarrow> jsnum" where
  "pow2 x = jmul x x"

text \<open>The comparison \<^verbatim>\<open>a > b\<close>; false as soon as one side is \<open>NaN\<close>.\<close>

fun jgt :: "jsnum \<Rightarrow> jsnum \<Rightarrow> bool" where
  "jgt NaN _ = False"
| "jgt _ NaN = False"
| "jgt (Fin a) (Fin b) = (b < a)"
| "jgt PInf PInf = False"
| "jgt PInf _ = True"
| "jgt NInf _ = False"
| "jgt (Fin a) PInf = False"
| "jgt (Fin a) NInf = True"

text \<open>
  Rounding to a double (IEEE 754 binary64, round to nearest, ties to even). \<open>binade x\<close> is
  the exponent \<open>e\<close> with \<open>2\<^sup>e \<le> x < 2\<^sup>e\<^sup>+\<^sup>1\<close>; the doubles of that size are the multiples of
  \<open>2\<^sup>e\<^sup>-\<^sup>5\<^sup>2\<close>, below \<open>2\<^sup>-\<^sup>1\<^sup>0\<^sup>2\<^sup>2\<close> the multiples of \<open>2\<^sup>-\<^sup>1\<^sup>0\<^sup>7\<^sup>4\<close>; a result of \<open>2\<^sup>1\<^sup>0\<^sup>2\<^sup>4\<close> or more
  is an infinity.
\<close>

definition binade :: "rat \<Rightarrow> int" where
  "binade x =
     (let d = bitlen (fst (quotient_of x)) - bitlen (snd (quotient_of x))
      in if 2 powi d \<le> x then d else d - 1)"

definition rne :: "rat \<Rightarrow> int" where
  "rne q =
     (let f = \<lfloor>q\<rfloor>; r = q - of_int f
      in if r < 1 / 2 then f else if 1 / 2 < r then f + 1 else if even f then f else f + 1)"

definition round_double :: "rat \<Rightarrow> jsnum" where
  "round_double x =
     (if x = 0 then Fin 0
      else
        (let e = max (binade \<bar>x\<bar>) (- 1022);
             u = 2 powi (e - 52);
             m = rne (\<bar>x\<bar> / u)
         in if 1023 < e \<or> e = 1023 \<and> 9007199254740992 \<le> m
            then (if 0 < x then PInf else NInf)
            else Fin (if 0 < x then of_int m * u else - (of_int m * u))))"

fun rd :: "jsnum \<Rightarrow> jsnum" where
  "rd (Fin q) = round_double q"
| "rd x = x"

definition dadd :: "jsnum \<Rightarrow> jsnum \<Rightarrow> jsnum" where
  "dadd a b = rd (jadd a b)"

definition dsub :: "jsnum \<Rightarrow> jsnum \<Rightarrow> jsnum" where
  "dsub a b = rd (jsub a b)"

definition dmul :: "jsnum \<Rightarrow> jsnum \<Rightarrow> jsnum" where
  "dmul a b = rd (jmul a b)"

definition ddiv :: "jsnum \<Rightarrow> jsnum \<Rightarrow> jsnum" where
  "ddiv a b = rd (jdiv a b)"

definition aget :: "jsnum list \<Rightarrow> nat \<Rightarrow> jsnum" where
  "aget xs i = (if i < length xs then xs ! i else NaN)"

definition aset :: "jsnum list \<Rightarrow> nat \<Rightarrow> jsnum \<Rightarrow> jsnum list" where
  "aset xs i v = (if i < length xs then xs[i := v] else xs @ replicate (i - length xs) NaN @ [v])"

text \<open>
  A value as the code can meet one in a row or in an object: a number, a string,
  \<^verbatim>\<open>undefined\<close> (a missing key), or an object or function, of which only the string it
  converts to matters here.
\<close>

datatype jsvalue = Num jsnum | Str string | Undefined | Obj string

text \<open>
  What the code takes from the JavaScript runtime and does not define: the conversion of a
  number to a string, \<^verbatim>\<open>parseFloat\<close>, the conversion of a string to a number, and the
  properties every plain object inherits from \<^verbatim>\<open>Object.prototype\<close> (a name is mapped to
  the string its inherited value converts to; \<^verbatim>\<open>constructor\<close> and \<^verbatim>\<open>toString\<close> are such
  names).
\<close>

record host =
  toStr :: "jsnum \<Rightarrow> string"
  parseFloat :: "string \<Rightarrow> jsnum"
  toNumber :: "string \<Rightarrow> jsnum"
  protoProp :: "string \<Rightarrow> string option"

text \<open>\<^verbatim>\<open>String(value)\<close>.\<close>

fun String :: "host \<Rightarrow> jsvalue \<Rightarrow> string" where
  "String h (Num x) = toStr h x"
| "String h (Str s) = s"
| "String h Undefined = ''undefined''"
| "String h (Obj s) = s"

text \<open>
  \<^verbatim>\<open>interface DataPoint { [key: string]: string | number }\<close>: the own properties of a row.
  Reading \<^verbatim>\<open>row[column]\<close> finds an own property, else an inherited one, else
  \<^verbatim>\<open>undefined\<close>.
\<close>

type_synonym DataPoint = "string \<rightharpoonup> jsvalue"

definition row_get :: "host \<Rightarrow> DataPoint \<Rightarrow> string \<Rightarrow> jsvalue" where
  "row_get h row column =
     (case row column of
        Some v \<Rightarrow> v
      | None \<Rightarrow> (case protoProp h column of Some s \<Rightarrow> Obj s | None \<Rightarrow> Undefined))"

text \<open>
  A call either returns or throws. The code throws in one place, the \<^verbatim>\<open>catch\<close> block of
  \<^verbatim>\<open>trainLinearRegression\<close> (\<open>Error\<close> with its message); the runtime throws a
  \<open>TypeError\<close> when a property of \<^verbatim>\<open>undefined\<close> is read.
\<close>

datatype error = TypeError | Error string

section \<open>Feature extraction\<close>

text \<open>
  \<^verbatim>\<open>typeof value === 'number' ? value : parseFloat(String(value))\<close>, used for the feature
  cells and for the target cell of \<^verbatim>\<open>extractFeatures\<close>.
\<close>

definition numValue :: "host \<Rightarrow> jsvalue \<Rightarrow> jsnum" where
  "numValue h v = (case v of Num x \<Rightarrow> x | _ \<Rightarrow> parseFloat h (String h v))"

text \<open>The body of \<^verbatim>\<open>data.forEach(row => ...)\<close>, on the arrays \<open>X\<close> and \<open>y\<close> built so far.\<close>

definition extract_row ::
  "host \<Rightarrow> string list \<Rightarrow> string \<Rightarrow> DataPoint \<Rightarrow> jsnum list list \<times> jsnum list
     \<Rightarrow> jsnum list list \<times> jsnum list" where
  "extract_row h featureColumns targetColumn row Xy =
     (let features = map (\<lambda>col. let nv = numValue h (row_get h row col)
                                 in if isNaN nv then Fin 0 else nv) featureColumns;
          targetValue = numValue h (row_get h row targetColumn)
      in if \<not> isNaN targetValue then (fst Xy @ [features], snd Xy @ [targetValue]) else Xy)"

definition extractFeatures ::
  "host \<Rightarrow> DataPoint list \<Rightarrow> string list \<Rightarrow> string
     \<Rightarrow> error + (jsnum list list \<times> jsnum list)" where
  "extractFeatures h data featureColumns targetColumn =
     Inr (fold (extract_row h featureColumns targetColumn) data ([], []))"

section \<open>Metrics\<close>

text \<open>
  \<^verbatim>\<open>xs.reduce((sum, x, i) => f(sum, x, i), init)\<close>: a left fold that also passes the index.
\<close>

definition reduce :: "('b \<Rightarrow> 'a \<Rightarrow> nat \<Rightarrow> 'b) \<Rightarrow> 'b \<Rightarrow> 'a list \<Rightarrow> 'b" where
  "reduce f init xs = foldl (\<lambda>acc (x, i). f acc x i) init (zip xs [0..<length xs])"

text \<open>
  \<^verbatim>\<open>interface ModelMetrics\<close>; its optional fields \<^verbatim>\<open>coefficients\<close> and \<^verbatim>\<open>intercept\<close> are
  never set by the code.
\<close>

record ModelMetrics =
  r2 :: jsnum
  mse :: jsnum
  mae :: jsnum

definition calculateMetrics :: "jsnum list \<Rightarrow> jsnum list \<Rightarrow> error + ModelMetrics" where
  "calculateMetrics yTrue yPred =
     (let n = Fin (of_nat (length yTrue));
          mse = jdiv (reduce (\<lambda>sum actual i. jadd sum (pow2 (jsub actual (aget yPred i))))
                        (Fin 0) yTrue) n;
          mae = jdiv (reduce (\<lambda>sum actual i. jadd sum (jabs (jsub actual (aget yPred i))))
                        (Fin 0) yTrue) n;
          yMean = jdiv (reduce (\<lambda>sum val i. jadd sum val) (Fin 0) yTrue) n;
          totalSumSquares = reduce (\<lambda>sum val i. jadd sum (pow2 (jsub val yMean))) (Fin 0) yTrue;
          residualSumSquares =
            reduce (\<lambda>sum val i. jadd sum (pow2 (jsub val (aget yPred i)))) (Fin 0) yTrue;
          r2 = jsub (Fin 1) (jdiv residualSumSquares totalSumSquares)
      in Inr \<lparr>r2 = r2, mse = mse, mae = mae\<rparr>)"

section \<open>Train-test split\<close>

text \<open>
  The process-wide \<^verbatim>\<open>Math.random\<close>. It is either the built-in generator, modelled by the
  sequence of its future draws and the number of draws made so far, or the closure that
  \<^verbatim>\<open>trainTestSplit\<close> assigns to it, which owns the current value of \<^verbatim>\<open>randomState\<close>.
\<close>

datatype math_random = Native "nat \<Rightarrow> rat" nat | Seeded jsnum

text \<open>
  \<^verbatim>\<open>randomState = (randomState * 9301 + 49297) % 233280\<close>; the product and the sum are
  rounded, the remainder of two doubles is exact.
\<close>

definition lcg :: "jsnum \<Rightarrow> jsnum" where
  "lcg s = jmod (dadd (dmul s (Fin 9301)) (Fin 49297)) (Fin 233280)"

fun call_random :: "math_random \<Rightarrow> jsnum \<times> math_random" where
  "call_random (Native f k) = (Fin (f k), Native f (Suc k))"
| "call_random (Seeded s) = (ddiv (lcg s) (Fin 233280), Seeded (lcg s))"

text \<open>
  The array \<^verbatim>\<open>indices\<close>. Its elements are indices or \<^verbatim>\<open>undefined\<close> (\<open>None\<close>). A
  subscript that is not a non-negative integer (a negative number, \<open>NaN\<close>) names an ordinary
  property of the array object instead of an element: \<open>props\<close> holds those. Writing an
  element past the end extends the array (the limit \<open>2\<^sup>3\<^sup>2 - 1\<close> of array indices is out
  of reach of the loop).
\<close>

record index_array =
  elems :: "nat option list"
  props :: "jsnum \<Rightarrow> nat option"

fun idx_of :: "jsnum \<Rightarrow> nat option" where
  "idx_of (Fin q) = (if 0 \<le> q \<and> of_int \<lfloor>q\<rfloor> = q then Some (nat \<lfloor>q\<rfloor>) else None)"
| "idx_of _ = None"

definition iget :: "index_array \<Rightarrow> jsnum \<Rightarrow> nat option" where
  "iget a j =
     (case idx_of j of
        Some k \<Rightarrow> (if k < length (elems a) then elems a ! k else None)
      | None \<Rightarrow> props a j)"

definition iset :: "index_array \<Rightarrow> jsnum \<Rightarrow> nat option \<Rightarrow> index_array" where
  "iset a j v =
     (case idx_of j of
        Some k \<Rightarrow>
          a\<lparr>elems := (if k < length (elems a) then (elems a)[k := v]
                      else elems a @ replicate (k - length (elems a)) None @ [v])\<rparr>
      | None \<Rightarrow> a\<lparr>props := (props a)(j := v)\<rparr>)"

text \<open>
  \<^verbatim>\<open>for (let i = indices.length - 1; i > 0; i--)\<close> with the body
  \<^verbatim>\<open>j = Math.floor(Math.random() * (i + 1)); [indices[i], indices[j]] = [indices[j], indices[i]]\<close>:
  both reads come first, then \<^verbatim>\<open>indices[i]\<close> is written, then \<^verbatim>\<open>indices[j]\<close>.
  \<open>shuffle i\<close> runs the iterations \<open>i, i - 1, ..., 1\<close>.
\<close>

fun shuffle :: "nat \<Rightarrow> index_array \<times> math_random \<Rightarrow> index_array \<times> math_random" where
  "shuffle 0 aw = aw"
| "shuffle (Suc i') aw =
     (let i = Fin (of_nat (Suc i'));
          rw = call_random (snd aw);
          j = jfloor (dmul (fst rw) (dadd i (Fin 1)));
          at_j = iget (fst aw) j;
          at_i = iget (fst aw) i
      in shuffle i' (iset (iset (fst aw) i at_j) j at_i, snd rw))"

text \<open>
  \<^verbatim>\<open>Array.prototype.slice\<close>: a relative index is truncated to an integer (\<open>NaN\<close> counts
  as 0), a negative one counts from the end, and the result is clamped to the array.
\<close>

fun rel_index :: "jsnum \<Rightarrow> nat \<Rightarrow> nat" where
  "rel_index NaN len = 0"
| "rel_index NInf len = 0"
| "rel_index PInf len = len"
| "rel_index (Fin q) len =
     (if rat_trunc q < 0 then nat (max (int len + rat_trunc q) 0) else min (nat (rat_trunc q)) len)"

definition slice :: "'a list \<Rightarrow> jsnum \<Rightarrow> jsnum \<Rightarrow> 'a list" where
  "slice xs start end =
     take (rel_index end (length xs) - rel_index start (length xs))
       (drop (rel_index start (length xs)) xs)"

definition slice_from :: "'a list \<Rightarrow> jsnum \<Rightarrow> 'a list" where
  "slice_from xs start = drop (rel_index start (length xs)) xs"

text \<open>
  The index computation of \<^verbatim>\<open>trainTestSplit\<close> for an \<open>X\<close> of \<open>n\<close> rows: the values of
  \<^verbatim>\<open>trainIndices\<close> and \<^verbatim>\<open>testIndices\<close>, and \<^verbatim>\<open>Math.random\<close> as the call leaves it.
  \<open>testSize\<close> is \<open>None\<close> when the argument is omitted (the default is the double written
  0.2), and so is \<open>randomState\<close>. \<open>testCount\<close> is \<^verbatim>\<open>Math.floor(X.length * testSize)\<close>.
\<close>

definition testCount :: "nat \<Rightarrow> jsnum \<Rightarrow> jsnum" where
  "testCount n fraction = jfloor (dmul (Fin (of_nat n)) fraction)"

definition splitIndices ::
  "math_random \<Rightarrow> nat \<Rightarrow> jsnum option \<Rightarrow> jsnum option
     \<Rightarrow> (nat option list \<times> nat option list) \<times> math_random" where
  "splitIndices random n testSize randomState =
     (let size = (case testSize of None \<Rightarrow> round_double (1 / 5) | Some t \<Rightarrow> t);
          random1 = (case randomState of Some s \<Rightarrow> Seeded s | None \<Rightarrow> random);
          indices0 = \<lparr>elems = map Some [0..<n], props = (\<lambda>_. None)\<rparr>;
          shuffled = shuffle (n - 1) (indices0, random1);
          indices = elems (fst shuffled);
          trainCount = dsub (Fin (of_nat n)) (testCount n size)
      in ((slice indices (Fin 0) trainCount, slice_from indices trainCount), snd shuffled))"

text \<open>\<^verbatim>\<open>X[i]\<close> for an element \<open>i\<close> of \<^verbatim>\<open>indices\<close>; \<^verbatim>\<open>undefined\<close> is \<open>None\<close>.\<close>

definition pick :: "'a list \<Rightarrow> nat option \<Rightarrow> 'a option" where
  "pick X i = (case i of Some k \<Rightarrow> (if k < length X then Some (X ! k) else None) | None \<Rightarrow> None)"

record ('x, 'y) TrainTestSplit =
  xTrain :: "'x option list"
  xTest :: "'x option list"
  yTrain :: "'y option list"
  yTest :: "'y option list"

definition trainTestSplit ::
  "math_random \<Rightarrow> 'x list \<Rightarrow> 'y list \<Rightarrow> jsnum option \<Rightarrow> jsnum option
     \<Rightarrow> (error + ('x, 'y) TrainTestSplit) \<times> math_random" where
  "trainTestSplit random X y testSize randomState =
     (let split = splitIndices random (length X) testSize randomState;
          trainIndices = fst (fst split);
          testIndices = snd (fst split)
      in (Inr \<lparr>xTrain = map (pick X) trainIndices,
               xTest = map (pick X) testIndices,
               yTrain = map (pick y) trainIndices,
               yTest = map (pick y) testIndices\<rparr>,
          snd split))"

section \<open>Linear regression\<close>

subsection \<open>Gaussian elimination\<close>

text \<open>
  The loops of \<^verbatim>\<open>gaussianElimination\<close> on the array \<^verbatim>\<open>augmented\<close>, one definition for each
  loop. A row index is always below \<open>n = A.length\<close>, so rows are read with \<open>!\<close>; a cell is
  read with \<open>aget\<close> and written with \<open>aset\<close>. The function has no check of the pivot and
  no \<^verbatim>\<open>throw\<close>: its result is always \<open>Inr\<close>.
\<close>

text \<open>
  \<^verbatim>\<open>let maxRow = i; for (k = i + 1; k < n; k++) if (|augmented[k][i]| > |augmented[maxRow][i]|) maxRow = k\<close>
\<close>

definition find_pivot :: "jsnum list list \<Rightarrow> nat \<Rightarrow> nat \<Rightarrow> nat" where
  "find_pivot augmented n i =
     fold (\<lambda>k maxRow. if jgt (jabs (aget (augmented ! k) i)) (jabs (aget (augmented ! maxRow) i))
                       then k else maxRow) [i + 1..<n] i"

text \<open>
  \<^verbatim>\<open>factor = augmented[k][i] / augmented[i][i]; for (j = i; j <= n; j++) augmented[k][j] -= factor * augmented[i][j]\<close>
\<close>

definition eliminate_row :: "nat \<Rightarrow> nat \<Rightarrow> nat \<Rightarrow> jsnum list list \<Rightarrow> jsnum list list" where
  "eliminate_row n i k augmented =
     (let factor = jdiv (aget (augmented ! k) i) (aget (augmented ! i) i)
      in fold (\<lambda>j aug. aug[k := aset (aug ! k) j
                                   (jsub (aget (aug ! k) j) (jmul factor (aget (aug ! i) j)))])
           [i..<n + 1] augmented)"

text \<open>One iteration of the forward elimination: pivot search, row swap, elimination below.\<close>

definition eliminate_column :: "nat \<Rightarrow> nat \<Rightarrow> jsnum list list \<Rightarrow> jsnum list list" where
  "eliminate_column n i augmented =
     (let maxRow = find_pivot augmented n i;
          swapped = augmented[i := augmented ! maxRow, maxRow := augmented ! i]
      in fold (eliminate_row n i) [i + 1..<n] swapped)"

text \<open>
  \<^verbatim>\<open>solution[i] = augmented[i][n]; for (j = i + 1; j < n; j++) solution[i] -= augmented[i][j] * solution[j]; solution[i] /= augmented[i][i]\<close>
\<close>

definition back_substitute :: "nat \<Rightarrow> jsnum list list \<Rightarrow> nat \<Rightarrow> jsnum list \<Rightarrow> jsnum list" where
  "back_substitute n augmented i solution =
     (let s0 = solution[i := aget (augmented ! i) n];
          s1 = fold (\<lambda>j s. s[i := jsub (s ! i) (jmul (aget (augmented ! i) j) (s ! j))])
                 [i + 1..<n] s0
      in s1[i := jdiv (s1 ! i) (aget (augmented ! i) i)])"

definition gaussianElimination :: "jsnum list list \<Rightarrow> jsnum list \<Rightarrow> error + jsnum list" where
  "gaussianElimination A b =
     (let n = length A;
          augmented = map (\<lambda>(row, i). row @ [aget b i]) (zip A [0..<n]);
          eliminated = fold (eliminate_column n) [0..<n] augmented;
          solution = fold (back_substitute n eliminated) (rev [0..<n]) (replicate n (Fin 0))
      in Inr solution)"

subsection \<open>Normal equations\<close>

text \<open>
  The loops of \<^verbatim>\<open>solveLeastSquares\<close>. \<^verbatim>\<open>XTX\<close> is \<open>p \<times> p\<close> and \<^verbatim>\<open>XTy\<close> has length \<open>p\<close>,
  and \<open>i, j < p\<close>, so their cells are read with \<open>!\<close> and written with a list update.
\<close>

text \<open>\<^verbatim>\<open>for (k = 0; k < n; k++) XTX[i][j] += X[k][i] * X[k][j]\<close>\<close>

definition accumulate_XTX :: "jsnum list list \<Rightarrow> nat \<Rightarrow> nat \<Rightarrow> jsnum list list \<Rightarrow> jsnum list list" where
  "accumulate_XTX X i j XTX =
     fold (\<lambda>k M. M[i := (M ! i)[j := jadd (M ! i ! j) (jmul (aget (X ! k) i) (aget (X ! k) j))]])
       [0..<length X] XTX"

text \<open>\<^verbatim>\<open>for (k = 0; k < n; k++) XTy[i] += X[k][i] * y[k]\<close>\<close>

definition accumulate_XTy :: "jsnum list list \<Rightarrow> jsnum list \<Rightarrow> nat \<Rightarrow> jsnum list \<Rightarrow> jsnum list" where
  "accumulate_XTy X y i XTy =
     fold (\<lambda>k v. v[i := jadd (v ! i) (jmul (aget (X ! k) i) (aget y k))]) [0..<length X] XTy"

text \<open>The body of the loop over \<open>i\<close>, on the pair \<open>(XTX, XTy)\<close>.\<close>

definition normal_row ::
  "jsnum list list \<Rightarrow> jsnum list \<Rightarrow> nat \<Rightarrow> nat \<Rightarrow> jsnum list list \<times> jsnum list
     \<Rightarrow> jsnum list list \<times> jsnum list" where
  "normal_row X y p i s = (fold (accumulate_XTX X i) [0..<p] (fst s), accumulate_XTy X y i (snd s))"

text \<open>\<^verbatim>\<open>X[0].length\<close> throws a \<open>TypeError\<close> when \<open>X\<close> is empty.\<close>

definition solveLeastSquares :: "jsnum list list \<Rightarrow> jsnum list \<Rightarrow> error + jsnum list" where
  "solveLeastSquares X y =
     (case X of
        [] \<Rightarrow> Inl TypeError
      | x0 # _ \<Rightarrow>
          (let p = length x0;
               totals = fold (normal_row X y p) [0..<p]
                        (replicate p (replicate p (Fin 0)), replicate p (Fin 0))
           in gaussianElimination (fst totals) (snd totals)))"

subsection \<open>Training\<close>

text \<open>
  The object that \<^verbatim>\<open>trainLinearRegression\<close> returns. Its \<^verbatim>\<open>predict\<close> closure is the
  function \<open>predict\<close> below, applied to the model.
\<close>

record LinearModel =
  coefficients :: "jsnum list"
  intercept :: jsnum
  score :: jsnum

text \<open>\<^verbatim>\<open>intercept + row.reduce((sum, val, idx) => sum + val * slopes[idx], 0)\<close>\<close>

definition predict_row :: "jsnum \<Rightarrow> jsnum list \<Rightarrow> jsnum list \<Rightarrow> jsnum" where
  "predict_row b slopes row =
     jadd b (reduce (\<lambda>sum val idx. jadd sum (jmul val (aget slopes idx))) (Fin 0) row)"

definition predict :: "LinearModel \<Rightarrow> jsnum list list \<Rightarrow> jsnum list" where
  "predict m values = map (predict_row (intercept m) (coefficients m)) values"

definition calculateR2 :: "jsnum list list \<Rightarrow> jsnum list \<Rightarrow> jsnum \<Rightarrow> jsnum list \<Rightarrow> jsnum" where
  "calculateR2 X y b slopes =
     (let predictions = map (predict_row b slopes) X;
          yMean = jdiv (reduce (\<lambda>sum val i. jadd sum val) (Fin 0) y) (Fin (of_nat (length y)));
          totalSumSquares = reduce (\<lambda>sum val i. jadd sum (pow2 (jsub val yMean))) (Fin 0) y;
          residualSumSquares =
            reduce (\<lambda>sum val idx. jadd sum (pow2 (jsub val (aget predictions idx)))) (Fin 0) y
      in jsub (Fin 1) (jdiv residualSumSquares totalSumSquares))"

text \<open>
  \<^verbatim>\<open>trainLinearRegression\<close>. The single-feature branch builds a
  \<^verbatim>\<open>SimpleLinearRegression\<close> of the library \<^verbatim>\<open>ml-regression\<close>, which is not part of this
  repository: \<open>simple\<close> stands for it (from the feature column and \<open>y\<close> to the model, or to
  what the library throws). \<^verbatim>\<open>X[0].length\<close> is read before the \<^verbatim>\<open>try\<close> block; whatever
  is thrown inside the block is replaced by the \<open>Error\<close> of the \<^verbatim>\<open>catch\<close> clause.
\<close>

definition training_failed :: error where
  "training_failed = Error ''Unable to train model. Check for multicollinearity or insufficient data.''"

definition trainLinearRegression ::
  "(jsnum list \<Rightarrow> jsnum list \<Rightarrow> error + LinearModel) \<Rightarrow> jsnum list list \<Rightarrow> jsnum list
     \<Rightarrow> error + LinearModel" where
  "trainLinearRegression simple X y =
     (case X of
        [] \<Rightarrow> Inl TypeError
      | x0 # _ \<Rightarrow>
          if length x0 = 1 then simple (map (\<lambda>row. aget row 0) X) y
          else
            (let designMatrix = map (\<lambda>row. Fin 1 # row) X
             in case solveLeastSquares designMatrix y of
                  Inl e \<Rightarrow> Inl training_failed
                | Inr coefs \<Rightarrow>
                    Inr \<lparr>coefficients = drop 1 coefs,
                         intercept = aget coefs 0,
                         score = calculateR2 X y (aget coefs 0) (drop 1 coefs)\<rparr>))"

section \<open>Value counts\<close>

text \<open>
  The object \<^verbatim>\<open>counts\<close>: its own properties in the order of their creation. It is a plain
  object, so a read that finds no own property falls back to \<^verbatim>\<open>Object.prototype\<close>, and
  an assignment to \<^verbatim>\<open>__proto__\<close> runs the inherited setter, which ignores a value
  that is not an object and creates no property.
\<close>

type_synonym js_object = "(string \<times> jsvalue) list"

definition obj_get :: "host \<Rightarrow> js_object \<Rightarrow> string \<Rightarrow> jsvalue" where
  "obj_get h obj k =
     (case map_of obj k of
        Some v \<Rightarrow> v
      | None \<Rightarrow> (case protoProp h k of Some s \<Rightarrow> Obj s | None \<Rightarrow> Undefined))"

fun obj_put :: "js_object \<Rightarrow> string \<Rightarrow> jsvalue \<Rightarrow> js_object" where
  "obj_put [] k v = [(k, v)]"
| "obj_put (e # es) k v = (if fst e = k then (k, v) # es else e # obj_put es k v)"

definition obj_set :: "host \<Rightarrow> js_object \<Rightarrow> string \<Rightarrow> jsvalue \<Rightarrow> js_object" where
  "obj_set h obj k v = (if k = ''__proto__'' \<and> protoProp h k \<noteq> None then obj else obj_put obj k v)"

text \<open>The operands of \<^verbatim>\<open>(counts[stringValue] || 0) + 1\<close>.\<close>

fun truthy :: "jsvalue \<Rightarrow> bool" where
  "truthy (Num x) = (x \<noteq> Fin 0 \<and> x \<noteq> NaN)"
| "truthy (Str s) = (s \<noteq> [])"
| "truthy Undefined = False"
| "truthy (Obj s) = True"

fun plus_one :: "host \<Rightarrow> jsvalue \<Rightarrow> jsvalue" where
  "plus_one h (Num x) = Num (jadd x (Fin 1))"
| "plus_one h (Str s) = Str (s @ toStr h (Fin 1))"
| "plus_one h (Obj s) = Str (s @ toStr h (Fin 1))"
| "plus_one h Undefined = Num NaN"

text \<open>The body of \<^verbatim>\<open>data.forEach(row => ...)\<close> in \<^verbatim>\<open>getValueCounts\<close>.\<close>

definition count_row :: "host \<Rightarrow> string \<Rightarrow> DataPoint \<Rightarrow> js_object \<Rightarrow> js_object" where
  "count_row h column row counts =
     (let stringValue = String h (row_get h row column);
          current = obj_get h counts stringValue
      in obj_set h counts stringValue (plus_one h (if truthy current then current else Num (Fin 0))))"

text \<open>
  \<^verbatim>\<open>Object.entries\<close> lists the own properties in the order of the language: first the
  keys that are array indices (the canonical decimal form of an integer below \<open>2\<^sup>3\<^sup>2 - 1\<close>)
  in ascending numeric order, then the other keys in the order of their creation.
\<close>

definition is_digit :: "char \<Rightarrow> bool" where
  "is_digit c = (c \<in> set ''0123456789'')"

definition dec_value :: "string \<Rightarrow> int" where
  "dec_value s = foldl (\<lambda>n c. 10 * n + (of_char c - 48)) 0 s"

definition is_array_index :: "string \<Rightarrow> bool" where
  "is_array_index s =
     (s \<noteq> [] \<and> list_all is_digit s \<and> (s = ''0'' \<or> hd s \<noteq> CHR ''0'') \<and> dec_value s < 4294967295)"

definition Object_entries :: "js_object \<Rightarrow> js_object" where
  "Object_entries obj =
     sort_key (\<lambda>e. dec_value (fst e)) (filter (\<lambda>e. is_array_index (fst e)) obj) @
     filter (\<lambda>e. \<not> is_array_index (fst e)) obj"

text \<open>
  \<^verbatim>\<open>interface ValueCount { value: string | number; count: number }\<close>. The field
  \<^verbatim>\<open>count\<close> is declared a number, but an inherited property can make it a string.
\<close>

record ValueCount =
  value' :: jsvalue
  count' :: jsvalue

text \<open>
  The comparator \<^verbatim>\<open>(a, b) => b.count - a.count\<close> and \<^verbatim>\<open>Array.prototype.sort\<close>. The sort
  is stable, and with a consistent comparator (here: when the counts are numbers) its result
  is determined by the language; it is modelled by insertion, where an element goes behind
  another one when the comparator of the two is positive (\<open>NaN\<close> counts as zero).
\<close>

fun to_number :: "host \<Rightarrow> jsvalue \<Rightarrow> jsnum" where
  "to_number h (Num x) = x"
| "to_number h (Str s) = toNumber h s"
| "to_number h (Obj s) = toNumber h s"
| "to_number h Undefined = NaN"

definition by_count :: "host \<Rightarrow> ValueCount \<Rightarrow> ValueCount \<Rightarrow> jsnum" where
  "by_count h a b = jsub (to_number h (count' b)) (to_number h (count' a))"

fun js_insort :: "('a \<Rightarrow> 'a \<Rightarrow> jsnum) \<Rightarrow> 'a \<Rightarrow> 'a list \<Rightarrow> 'a list" where
  "js_insort cmp x [] = [x]"
| "js_insort cmp x (y # ys) = (if jgt (cmp x y) (Fin 0) then y # js_insort cmp x ys else x # y # ys)"

definition js_sort :: "('a \<Rightarrow> 'a \<Rightarrow> jsnum) \<Rightarrow> 'a list \<Rightarrow> 'a list" where
  "js_sort cmp xs = foldr (js_insort cmp) xs []"

definition getValueCounts :: "host \<Rightarrow> DataPoint list \<Rightarrow> string \<Rightarrow> error + ValueCount list" where
  "getValueCounts h data column =
     (let counts = fold (count_row h column) data []
      in Inr (js_sort (by_count h)
                (map (\<lambda>e. \<lparr>value' = Str (fst e), count' = snd e\<rparr>) (Object_entries counts))))"

section \<open>Notions used to state the properties\<close>




text \<open>
  The filtering policy of feature extraction in the words of the specification: the rows
  whose target parses as a number are kept, and a feature cell that does not parse becomes 0.
\<close>

definition kept_rows :: "host \<Rightarrow> string \<Rightarrow> DataPoint list \<Rightarrow> DataPoint list" where
  "kept_rows h targetColumn data =
     filter (\<lambda>row. \<not> isNaN (numValue h (row_get h row targetColumn))) data"

definition feature_cell :: "host \<Rightarrow> DataPoint \<Rightarrow> string \<Rightarrow> jsnum" where
  "feature_cell h row col =
     (if isNaN (numValue h (row_get h row col)) then Fin 0 else numValue h (row_get h row col))"

text \<open>
  Value counts in the words of the specification. \<open>column_strings\<close> are the string forms
  of the cells of a column, row by row; \<open>first_seen\<close> lists the distinct elements of a list in
  the order of their first occurrence; \<open>key_order\<close> is the order in which the language
  enumerates keys that were created in the given order; \<open>value_count\<close> is the entry of a
  string with the number of its occurrences; \<open>count_num\<close> reads the count of an entry.
\<close>

definition column_strings :: "host \<Rightarrow> DataPoint list \<Rightarrow> string \<Rightarrow> string list" where
  "column_strings h data column = map (\<lambda>row. String h (row_get h row column)) data"

definition first_seen :: "'a list \<Rightarrow> 'a list" where
  "first_seen xs = fold (\<lambda>x seen. if x \<in> set seen then seen else seen @ [x]) xs []"

definition key_order :: "string list \<Rightarrow> string list" where
  "key_order ks = sort_key dec_value (filter is_array_index ks) @ filter (\<lambda>k. \<not> is_array_index k) ks"

definition value_count :: "string list \<Rightarrow> string \<Rightarrow> ValueCount" where
  "value_count keys k = \<lparr>value' = Str k, count' = Num (Fin (of_nat (count_list keys k)))\<rparr>"

definition count_num :: "ValueCount \<Rightarrow> rat" where
  "count_num e = (case count' e of Num (Fin q) \<Rightarrow> q | _ \<Rightarrow> 0)"







text \<open>
  A host on which the model can be run: it prints a number in decimal notation (an integer
  as JavaScript prints it, up to twenty digits of a fraction), reads a decimal number (from
  the front of a string for \<^verbatim>\<open>parseFloat\<close>, from the whole string for the conversion to a
  number), and knows the properties of \<^verbatim>\<open>Object.prototype\<close> with the strings that V8 gives
  them. It serves the concrete examples below, none of which depends on more than that.
\<close>

fun dec :: "nat \<Rightarrow> string" where
  "dec n = (if n < 10 then [char_of (48 + n)] else dec (n div 10) @ [char_of (48 + n mod 10)])"

fun frac_digits :: "nat \<Rightarrow> rat \<Rightarrow> string" where
  "frac_digits 0 r = []"
| "frac_digits (Suc f) r =
     (if r = 0 then []
      else char_of (48 + nat \<lfloor>r * 10\<rfloor>) # frac_digits f (r * 10 - of_int \<lfloor>r * 10\<rfloor>))"

fun print_number :: "jsnum \<Rightarrow> string" where
  "print_number NaN = ''NaN''"
| "print_number PInf = ''Infinity''"
| "print_number NInf = ''-Infinity''"
| "print_number (Fin q) =
     (if q < 0 then ''-'' else []) @ dec (nat \<lfloor>\<bar>q\<bar>\<rfloor>) @
     (if \<bar>q\<bar> = of_int \<lfloor>\<bar>q\<bar>\<rfloor> then [] else ''.'' @ frac_digits 20 (\<bar>q\<bar> - of_int \<lfloor>\<bar>q\<bar>\<rfloor>))"

definition read_decimal :: "string \<Rightarrow> (rat \<times> string) option" where
  "read_decimal s =
     (let neg = (s \<noteq> [] \<and> hd s = CHR ''-'');
          s1 = (if neg then tl s else s);
          ip = takeWhile is_digit s1;
          s2 = dropWhile is_digit s1;
          fp = (if s2 \<noteq> [] \<and> hd s2 = CHR ''.'' then takeWhile is_digit (tl s2) else []);
          rest = (if fp = [] then s2 else dropWhile is_digit (tl s2));
          v = of_int (dec_value ip) + of_int (dec_value fp) / 10 ^ length fp
      in if ip = [] \<and> fp = [] then None else Some (if neg then - v else v, rest))"

definition object_prototype :: "string \<Rightarrow> string option" where
  "object_prototype name =
     (if name = ''__proto__'' then Some ''[object Object]''
      else if name = ''constructor'' then Some ''function Object() { [native code] }''
      else if name \<in> set [''__defineGetter__'', ''__defineSetter__'', ''hasOwnProperty'',
             ''__lookupGetter__'', ''__lookupSetter__'', ''isPrototypeOf'',
             ''propertyIsEnumerable'', ''toString'', ''valueOf'', ''toLocaleString'']
      then Some (''function '' @ name @ ''() { [native code] }'')
      else None)"

definition sample_host :: host where
  "sample_host =
     \<lparr>toStr = print_number,
      parseFloat = (\<lambda>s. case read_decimal s of Some (v, rest) \<Rightarrow> Fin v | None \<Rightarrow> NaN),
      toNumber = (\<lambda>s. if s = [] then Fin 0
                      else case read_decimal s of
                             Some (v, rest) \<Rightarrow> (if rest = [] then Fin v else NaN)
                           | None \<Rightarrow> NaN),
      protoProp = object_prototype\<rparr>"

text \<open>
  The object \<^verbatim>\<open>counts\<close> after the cells with the given string forms have been counted, when
  none of them is an inherited name; the sums that the loops of \<^verbatim>\<open>solveLeastSquares\<close> add
  to a cell of \<^verbatim>\<open>XTX\<close> and of \<^verbatim>\<open>XTy\<close>; a dataset with a single column.
\<close>

definition counted :: "string list \<Rightarrow> js_object" where
  "counted keys = map (\<lambda>k. (k, Num (Fin (of_nat (count_list keys k))))) (first_seen keys)"



definition column_of :: "string \<Rightarrow> jsvalue list \<Rightarrow> DataPoint list" where
  "column_of c vs = map (\<lambda>v. [c \<mapsto> v]) vs"

section \<open>Properties of the metrics\<close>

lemma jadd_NaN_right: "jadd x NaN = NaN"
  by (cases x) simp_all

lemma jsub_NaN_right: "jsub x NaN = NaN"
  by (simp add: jsub_def jadd_NaN_right)

lemma pow2_NaN: "pow2 NaN = NaN"
  by (simp add: pow2_def)

lemma foldl_NaN_absorbs:
  assumes "\<And>e. f NaN e = NaN"
  shows "foldl f NaN es = NaN"
  using assms by (induction es) simp_all

lemma foldl_NaN_poison:
  assumes "e \<in> set es" and "\<And>acc. f acc e = NaN" and "\<And>e'. f NaN e' = NaN"
  shows "foldl f a es = NaN"
  using assms(1)
proof (induction es arbitrary: a)
  case Nil
  then show ?case by simp
next
  case (Cons x xs)
  show ?case
  proof (cases "x = e")
    case True
    then show ?thesis by (simp add: assms(2) foldl_NaN_absorbs [of f, OF assms(3)])
  next
    case False
    with Cons show ?thesis by simp
  qed
qed

lemma reduce_short_NaN:
  assumes "length yPred < length yTrue"
    and "\<And>x. g x NaN = NaN"
  shows "reduce (\<lambda>sum actual i. jadd sum (g actual (aget yPred i))) a yTrue = NaN"
proof -
  let ?k = "length yPred"
  have mem: "(yTrue ! ?k, ?k) \<in> set (zip yTrue [0..<length yTrue])"
    using assms(1) by (auto simp: set_zip intro!: exI [of _ ?k])
  show ?thesis
    unfolding reduce_def
    by (rule foldl_NaN_poison [OF mem]) (auto simp: aget_def assms(2) jadd_NaN_right)
qed

lemma reduce_Nil: "reduce f a [] = a"
  by (simp add: reduce_def)

text \<open>
  Claim C7, amended. \<^verbatim>\<open>calculateMetrics\<close> validates nothing and never fails: for every
  \<open>yTrue\<close> and \<open>yPred\<close> it returns a metrics object, and when \<open>yTrue\<close> is empty or \<open>yPred\<close>
  is shorter than \<open>yTrue\<close> the three metrics are \<open>NaN\<close>.
\<close>

theorem calculateMetrics_never_fails:
  "\<exists>m. calculateMetrics yTrue yPred = Inr m \<and>
       (yTrue = [] \<or> length yPred < length yTrue \<longrightarrow> r2 m = NaN \<and> mse m = NaN \<and> mae m = NaN)"
proof (cases "yTrue = []")
  case True
  then show ?thesis
    by (simp add: calculateMetrics_def reduce_Nil jsub_def)
next
  case False
  show ?thesis
  proof (cases "length yPred < length yTrue")
    case True
    have sq: "reduce (\<lambda>sum actual i. jadd sum (pow2 (jsub actual (aget yPred i)))) (Fin 0) yTrue = NaN"
      by (rule reduce_short_NaN [OF True, where g = "\<lambda>a b. pow2 (jsub a b)"])
         (simp add: jsub_NaN_right pow2_NaN)
    have ab: "reduce (\<lambda>sum actual i. jadd sum (jabs (jsub actual (aget yPred i)))) (Fin 0) yTrue = NaN"
      by (rule reduce_short_NaN [OF True, where g = "\<lambda>a b. jabs (jsub a b)"])
         (simp add: jsub_NaN_right)
    show ?thesis
      by (simp add: calculateMetrics_def Let_def sq ab jsub_NaN_right)
  next
    case False
    with \<open>yTrue \<noteq> []\<close> show ?thesis
      by (simp add: calculateMetrics_def Let_def)
  qed
qed

theorem calculateMetrics_never_fails_witness:
  "\<exists>m. calculateMetrics [Fin 1, Fin 2] [Fin 1] = Inr m \<and> r2 m = NaN \<and> mse m = NaN \<and> mae m = NaN"
  using calculateMetrics_never_fails [of "[Fin 1, Fin 2]" "[Fin 1]"] by simp

text \<open>
  Claim C7 as stated fails: on empty input, and on a \<open>yPred\<close> shorter than \<open>yTrue\<close>, the
  function returns \<open>NaN\<close> metrics instead of failing; on a \<open>yPred\<close> longer than \<open>yTrue\<close> it
  returns the metrics of the first entries.
\<close>

theorem calculateMetrics_unchecked_counterexample:
  "calculateMetrics [] [] = Inr \<lparr>r2 = NaN, mse = NaN, mae = NaN\<rparr> \<and>
   calculateMetrics [Fin 1, Fin 2] [Fin 1] = Inr \<lparr>r2 = NaN, mse = NaN, mae = NaN\<rparr> \<and>
   calculateMetrics [Fin 1, Fin 2] [Fin 1, Fin 1, Fin 7] =
     Inr \<lparr>r2 = Fin (- 1), mse = Fin (1 / 2), mae = Fin (1 / 2)\<rparr>"
  by code_simp

section \<open>Properties of feature extraction\<close>

lemma fold_extract_row:
  "fold (extract_row h fc tc) data (X0, y0) =
     (X0 @ map (\<lambda>row. map (feature_cell h row) fc) (kept_rows h tc data),
      y0 @ map (\<lambda>row. numValue h (row_get h row tc)) (kept_rows h tc data))"
proof (induction data arbitrary: X0 y0)
  case Nil
  show ?case by (simp add: kept_rows_def)
next
  case (Cons row rows)
  have step: "extract_row h fc tc row (X0, y0) =
      (if \<not> isNaN (numValue h (row_get h row tc))
       then (X0 @ [map (feature_cell h row) fc], y0 @ [numValue h (row_get h row tc)])
       else (X0, y0))"
    by (simp add: extract_row_def feature_cell_def Let_def)
  show ?case
    using Cons.IH by (simp add: step kept_rows_def)
qed

text \<open>
  Claim C9. For every dataset, feature columns and target column, \<^verbatim>\<open>extractFeatures\<close>
  returns (it never throws) the pair \<open>(X, y)\<close> in which the rows whose target does not parse
  as a number are dropped from both, every feature cell that does not parse as a number is 0,
  and \<open>X\<close> and \<open>y\<close> have the same length.
\<close>

theorem extractFeatures_coerces_and_filters:
  "\<exists>X y. extractFeatures h data featureColumns targetColumn = Inr (X, y) \<and>
         X = map (\<lambda>row. map (feature_cell h row) featureColumns) (kept_rows h targetColumn data) \<and>
         y = map (\<lambda>row. numValue h (row_get h row targetColumn)) (kept_rows h targetColumn data) \<and>
         length X = length y"
  by (simp add: extractFeatures_def fold_extract_row)

section \<open>Properties of the rounding\<close>













section \<open>Properties of the train-test split\<close>















lemma shuffle_seeded_state:
  "snd (shuffle i (a, Seeded s)) = Seeded ((lcg ^^ i) s)"
proof (induction i arbitrary: a s)
  case 0
  show ?case by simp
next
  case (Suc i)
  show ?case
    by (simp add: Let_def Suc.IH funpow_swap1 del: of_nat_Suc)
qed




text \<open>
  Claim C3. With a seed, the result of \<^verbatim>\<open>trainTestSplit\<close> (and the \<^verbatim>\<open>Math.random\<close> it
  leaves behind) is the same whatever \<^verbatim>\<open>Math.random\<close> was before the call: the same
  \<open>X\<close>, \<open>y\<close>, test fraction and seed give the same assignment in every run.
\<close>

theorem trainTestSplit_seed_deterministic:
  "trainTestSplit random1 X y testSize (Some seed) = trainTestSplit random2 X y testSize (Some seed)"
  by (simp add: trainTestSplit_def splitIndices_def)

text \<open>
  Claim C4, amended. With a seed, \<^verbatim>\<open>trainTestSplit\<close> assigns the seeded generator to the
  process-wide \<^verbatim>\<open>Math.random\<close> and does not restore it: after the call \<^verbatim>\<open>Math.random\<close> is
  the closure, its state the seed advanced once for each shuffle step, and a later call
  without a seed draws from that closure, that is, it splits as a call seeded with that state.
\<close>

theorem trainTestSplit_overrides_random:
  "snd (trainTestSplit random X y testSize (Some seed)) = Seeded ((lcg ^^ (length X - 1)) seed) \<and>
   fst (trainTestSplit (Seeded s) X y testSize None) = fst (trainTestSplit random X y testSize (Some s))"
  by (simp add: trainTestSplit_def splitIndices_def shuffle_seeded_state Let_def)

text \<open>
  Claim C4 as stated fails: after a seeded call \<^verbatim>\<open>Math.random\<close> is no longer the built-in
  generator, and the same unseeded call splits differently before and after it.
\<close>

theorem trainTestSplit_random_counterexample:
  "(case snd (trainTestSplit (Native (\<lambda>_. 0) 0) [[Fin 1], [Fin 2], [Fin 3]]
                [Fin 10, Fin 20, Fin 30] (Some (Fin (1 / 2))) (Some (Fin 42))) of
      Native f k \<Rightarrow> False
    | Seeded s \<Rightarrow> s = Fin 190736) \<and>
   fst (trainTestSplit (Native (\<lambda>_. 0) 0) [[Fin 1], [Fin 2], [Fin 3]] [Fin 10, Fin 20, Fin 30]
          (Some (Fin (1 / 2))) None) =
     Inr \<lparr>xTrain = [Some [Fin 2], Some [Fin 3]], xTest = [Some [Fin 1]],
          yTrain = [Some (Fin 20), Some (Fin 30)], yTest = [Some (Fin 10)]\<rparr> \<and>
   fst (trainTestSplit (Seeded (Fin 190736)) [[Fin 1], [Fin 2], [Fin 3]] [Fin 10, Fin 20, Fin 30]
          (Some (Fin (1 / 2))) None) =
     Inr \<lparr>xTrain = [Some [Fin 1], Some [Fin 2]], xTest = [Some [Fin 3]],
          yTrain = [Some (Fin 10), Some (Fin 20)], yTest = [Some (Fin 30)]\<rparr>"
  by code_simp

section \<open>Properties of the value counts\<close>

lemma set_js_insort: "set (js_insort cmp x ys) = insert x (set ys)"
  by (induction ys) auto

lemma set_js_sort: "set (js_sort cmp xs) = set xs"
  by (induction xs) (simp_all add: js_sort_def set_js_insort)

lemma set_Object_entries: "set (Object_entries obj) = set obj"
  by (auto simp: Object_entries_def)

lemma keys_obj_put: "fst ` set (obj_put obj k v) = insert k (fst ` set obj)"
  by (induction obj) auto

lemma keys_obj_set: "fst ` set (obj_set h obj k v) \<subseteq> insert k (fst ` set obj)"
  by (auto simp: obj_set_def keys_obj_put)

lemma keys_count_row:
  "fst ` set (count_row h column row obj) \<subseteq> insert (String h (row_get h row column)) (fst ` set obj)"
  unfolding count_row_def Let_def by (rule keys_obj_set)

lemma keys_fold_count_row:
  "fst ` set (fold (count_row h column) data obj) \<subseteq>
     fst ` set obj \<union> (\<lambda>row. String h (row_get h row column)) ` set data"
proof (induction data arbitrary: obj)
  case Nil
  show ?case by simp
next
  case (Cons row rows)
  from Cons.IH [of "count_row h column row obj"] keys_count_row [of h column row obj]
  show ?case by auto
qed

text \<open>
  Claim C10. For every dataset and column, \<^verbatim>\<open>getValueCounts\<close> returns, and the \<^verbatim>\<open>value\<close>
  field of every entry it returns is a string, the string form of the cell of some row, never
  a number, also when every cell of the column is a number.
\<close>

theorem getValueCounts_values_are_strings:
  "\<exists>vcs. getValueCounts h data column = Inr vcs \<and>
         (\<forall>e \<in> set vcs. \<exists>row \<in> set data. value' e = Str (String h (row_get h row column)))"
proof -
  let ?obj = "fold (count_row h column) data []"
  have "\<exists>row \<in> set data. value' e = Str (String h (row_get h row column))"
    if "e \<in> set (map (\<lambda>e. \<lparr>value' = Str (fst e), count' = snd e\<rparr>) (Object_entries ?obj))" for e
  proof -
    from that obtain kv where kv: "kv \<in> set ?obj" "e = \<lparr>value' = Str (fst kv), count' = snd kv\<rparr>"
      by (auto simp: set_Object_entries)
    from kv(1) have "fst kv \<in> fst ` set ?obj" by simp
    with keys_fold_count_row [of h column data "[]"]
    obtain row where "row \<in> set data" "fst kv = String h (row_get h row column)" by auto
    with kv(2) show ?thesis by auto
  qed
  then show ?thesis
    by (simp add: getValueCounts_def Let_def set_js_sort del: set_map)
qed

theorem getValueCounts_values_are_strings_witness:
  "\<exists>vcs. getValueCounts sample_host (column_of ''n'' [Num (Fin 7), Num (Fin 3), Num (Fin 7)]) ''n'' = Inr vcs \<and>
         (\<forall>e \<in> set vcs. \<exists>row \<in> set (column_of ''n'' [Num (Fin 7), Num (Fin 3), Num (Fin 7)]).
              value' e = Str (String sample_host (row_get sample_host row ''n''))) \<and>
         vcs = [\<lparr>value' = Str ''7'', count' = Num (Fin 2)\<rparr>, \<lparr>value' = Str ''3'', count' = Num (Fin 1)\<rparr>]"
proof -
  have e: "getValueCounts sample_host (column_of ''n'' [Num (Fin 7), Num (Fin 3), Num (Fin 7)]) ''n'' =
      Inr [\<lparr>value' = Str ''7'', count' = Num (Fin 2)\<rparr>, \<lparr>value' = Str ''3'', count' = Num (Fin 1)\<rparr>]"
    by code_simp
  from getValueCounts_values_are_strings
    [of sample_host "column_of ''n'' [Num (Fin 7), Num (Fin 3), Num (Fin 7)]" "''n''"] e
  show ?thesis by auto
qed

lemma first_seen_snoc:
  "first_seen (xs @ [x]) = (if x \<in> set (first_seen xs) then first_seen xs else first_seen xs @ [x])"
  by (simp add: first_seen_def)

lemma first_seen_Nil: "first_seen [] = []"
  by (simp add: first_seen_def)

lemma first_seen_props: "set (first_seen xs) = set xs \<and> distinct (first_seen xs)"
proof (induction xs rule: rev_induct)
  case Nil
  show ?case by (simp add: first_seen_Nil)
next
  case (snoc x xs)
  then show ?case by (auto simp: first_seen_snoc)
qed

lemma obj_put_present:
  assumes "k \<in> set ks" and "distinct ks"
  shows "obj_put (map (\<lambda>k'. (k', g k')) ks) k v = map (\<lambda>k'. (k', if k' = k then v else g k')) ks"
  using assms by (induction ks) auto

lemma obj_put_absent:
  assumes "k \<notin> set ks"
  shows "obj_put (map (\<lambda>k'. (k', g k')) ks) k v = map (\<lambda>k'. (k', g k')) ks @ [(k, v)]"
  using assms by (induction ks) auto

lemma map_of_counts:
  "map_of (map (\<lambda>k'. (k', g k')) ks) k = (if k \<in> set ks then Some (g k) else None)"
  by (induction ks) auto

lemma count_row_counted:
  assumes "protoProp h (String h (row_get h row column)) = None"
  shows "count_row h column row (counted keys) = counted (keys @ [String h (row_get h row column)])"
proof -
  let ?k = "String h (row_get h row column)"
  let ?g = "\<lambda>k. Num (Fin (of_nat (count_list keys k)))"
  note fs = first_seen_props [of keys]
  show ?thesis
  proof (cases "?k \<in> set keys")
    case True
    then have pos: "count_list keys ?k \<noteq> 0" by (simp add: count_list_0_iff)
    have cur: "obj_get h (counted keys) ?k = ?g ?k"
      using True fs by (simp add: obj_get_def counted_def map_of_counts)
    have "count_row h column row (counted keys) =
        obj_put (counted keys) ?k (Num (Fin (of_nat (count_list keys ?k) + 1)))"
      using pos by (simp add: count_row_def Let_def cur obj_set_def assms)
    also have "\<dots> = map (\<lambda>k'. (k', if k' = ?k then Num (Fin (of_nat (count_list keys ?k) + 1)) else ?g k'))
        (first_seen keys)"
      unfolding counted_def using True fs by (intro obj_put_present) simp_all
    also have "\<dots> = counted (keys @ [?k])"
      using True fs by (simp add: counted_def first_seen_snoc)
    finally show ?thesis .
  next
    case False
    have cur: "obj_get h (counted keys) ?k = Undefined"
      using False fs by (simp add: obj_get_def counted_def map_of_counts assms)
    have "count_row h column row (counted keys) = obj_put (counted keys) ?k (Num (Fin 1))"
      by (simp add: count_row_def Let_def cur obj_set_def assms)
    also have "\<dots> = counted keys @ [(?k, Num (Fin 1))]"
      unfolding counted_def using False fs by (intro obj_put_absent) simp
    also have "\<dots> = counted (keys @ [?k])"
      using False fs by (auto simp: counted_def first_seen_snoc)
    finally show ?thesis .
  qed
qed

lemma fold_count_row_counted:
  assumes "\<forall>row \<in> set data. protoProp h (String h (row_get h row column)) = None"
  shows "fold (count_row h column) data (counted keys) = counted (keys @ column_strings h data column)"
  using assms
proof (induction data arbitrary: keys)
  case Nil
  show ?case by (simp add: column_strings_def)
next
  case (Cons row rows)
  from Cons.prems have p: "protoProp h (String h (row_get h row column)) = None" by simp
  from Cons.prems have r: "\<forall>row \<in> set rows. protoProp h (String h (row_get h row column)) = None"
    by simp
  show ?case
    using Cons.IH [OF r] by (simp add: count_row_counted [OF p] column_strings_def)
qed

lemma counted_Nil: "counted [] = []"
  by (simp add: counted_def first_seen_def)

lemma insort_key_map_pair:
  "insort_key (\<lambda>e. f (fst e)) (k, g k) (map (\<lambda>k. (k, g k)) ks) = map (\<lambda>k. (k, g k)) (insort_key f k ks)"
  by (induction ks) simp_all

lemma sort_key_map_pair:
  "sort_key (\<lambda>e. f (fst e)) (map (\<lambda>k. (k, g k)) ks) = map (\<lambda>k. (k, g k)) (sort_key f ks)"
  by (induction ks) (simp_all add: insort_key_map_pair)

lemma Object_entries_map:
  "Object_entries (map (\<lambda>k. (k, g k)) ks) = map (\<lambda>k. (k, g k)) (key_order ks)"
  by (simp add: Object_entries_def key_order_def filter_map comp_def sort_key_map_pair)

lemma js_insort_by_count:
  assumes "\<forall>e \<in> set (x # ys). \<exists>q. count' e = Num (Fin q)"
  shows "js_insort (by_count h) x ys = insort_key (\<lambda>e. - count_num e) x ys"
  using assms
proof (induction ys)
  case Nil
  show ?case by simp
next
  case (Cons y ys)
  from Cons.prems obtain qx qy where q: "count' x = Num (Fin qx)" "count' y = Num (Fin qy)"
    by auto
  have c: "jgt (by_count h x y) (Fin 0) \<longleftrightarrow> \<not> (- count_num x \<le> - count_num y)"
    by (auto simp: by_count_def jsub_def count_num_def q)
  from Cons show ?case by (simp add: c)
qed

lemma js_sort_by_count:
  assumes "\<forall>e \<in> set xs. \<exists>q. count' e = Num (Fin q)"
  shows "js_sort (by_count h) xs = sort_key (\<lambda>e. - count_num e) xs"
  using assms
proof (induction xs)
  case Nil
  show ?case by (simp add: js_sort_def)
next
  case (Cons x xs)
  then have IH: "js_sort (by_count h) xs = sort_key (\<lambda>e. - count_num e) xs" by simp
  have "\<forall>e \<in> set (x # sort_key (\<lambda>e. - count_num e) xs). \<exists>q. count' e = Num (Fin q)"
    using Cons.prems by simp
  from js_insort_by_count [OF this, of h] IH show ?case
    by (simp add: js_sort_def)
qed

lemma getValueCounts_sorted_entries:
  assumes "\<forall>row \<in> set data. protoProp h (String h (row_get h row column)) = None"
  shows "getValueCounts h data column =
     Inr (sort_key (\<lambda>e. - count_num e)
            (map (value_count (column_strings h data column))
               (key_order (first_seen (column_strings h data column)))))"
proof -
  let ?keys = "column_strings h data column"
  have obj: "fold (count_row h column) data [] = counted ?keys"
    using fold_count_row_counted [OF assms, of "[]"] by (simp add: counted_Nil)
  have ent: "map (\<lambda>e. \<lparr>value' = Str (fst e), count' = snd e\<rparr>) (Object_entries (counted ?keys)) =
      map (value_count ?keys) (key_order (first_seen ?keys))"
    by (simp add: counted_def Object_entries_map value_count_def comp_def)
  have num: "\<forall>e \<in> set (map (value_count ?keys) (key_order (first_seen ?keys))).
      \<exists>q. count' e = Num (Fin q)"
    by (simp add: value_count_def)
  show ?thesis
    by (simp only: getValueCounts_def Let_def obj ent js_sort_by_count [OF num])
qed

lemma key_order_no_index: "\<forall>k \<in> set ks. \<not> is_array_index k \<Longrightarrow> key_order ks = ks"
  by (simp add: key_order_def)

lemma set_key_order: "set (key_order ks) = set ks"
  by (auto simp: key_order_def)

lemma mset_key_order: "mset (key_order ks) = mset ks"
  by (simp add: key_order_def)

text \<open>
  Claim C8, amended. For every dataset and column in which no cell has the string form of a
  name inherited from \<^verbatim>\<open>Object.prototype\<close>, \<^verbatim>\<open>getValueCounts\<close> returns one entry for each
  distinct string form, with the number of cells that have it (so cells with the same string
  form, such as the number 1 and the string "1", share an entry), sorted by descending count;
  among entries of equal count, those whose string is an array index come first, in ascending
  numeric order, and the others follow in the order in which they were first met. When no
  string form is an array index, ties keep the order of the first occurrence.
\<close>

theorem getValueCounts_order:
  assumes "\<forall>row \<in> set data. protoProp h (String h (row_get h row column)) = None"
  shows "\<exists>vcs. getValueCounts h data column = Inr vcs \<and>
     mset vcs = mset (map (value_count (column_strings h data column))
                        (first_seen (column_strings h data column))) \<and>
     sorted_wrt (\<lambda>a b. count_num b \<le> count_num a) vcs \<and>
     (\<forall>c. filter (\<lambda>e. count_num e = c) vcs =
           filter (\<lambda>e. count_num e = c)
             (map (value_count (column_strings h data column))
                (key_order (first_seen (column_strings h data column))))) \<and>
     ((\<forall>k \<in> set (column_strings h data column). \<not> is_array_index k) \<longrightarrow>
        (\<forall>c. filter (\<lambda>e. count_num e = c) vcs =
              filter (\<lambda>e. count_num e = c)
                (map (value_count (column_strings h data column))
                   (first_seen (column_strings h data column)))))"
proof -
  let ?keys = "column_strings h data column"
  let ?es = "map (value_count ?keys) (key_order (first_seen ?keys))"
  let ?vcs = "sort_key (\<lambda>e. - count_num e) ?es"
  have r: "getValueCounts h data column = Inr ?vcs"
    by (rule getValueCounts_sorted_entries [OF assms])
  have a: "mset ?vcs = mset (map (value_count ?keys) (first_seen ?keys))"
    by (simp add: mset_key_order)
  have "sorted (map (\<lambda>e. - count_num e) ?vcs)" by (rule sorted_sort_key)
  then have b: "sorted_wrt (\<lambda>a b. count_num b \<le> count_num a) ?vcs"
    by (simp add: sorted_map)
  have c: "filter (\<lambda>e. count_num e = c) ?vcs = filter (\<lambda>e. count_num e = c) ?es" for c
    using sort_key_stable [of "\<lambda>e. - count_num e" "- c" ?es] by simp
  have d: "filter (\<lambda>e. count_num e = c) ?vcs =
      filter (\<lambda>e. count_num e = c) (map (value_count ?keys) (first_seen ?keys))"
    if "\<forall>k \<in> set ?keys. \<not> is_array_index k" for c
  proof -
    from that have "key_order (first_seen ?keys) = first_seen ?keys"
      by (intro key_order_no_index) (simp add: first_seen_props)
    with c [of c] show ?thesis by simp
  qed
  from r a b c d show ?thesis by blast
qed

theorem getValueCounts_order_witness:
  "list_all (\<lambda>row. protoProp sample_host (String sample_host (row_get sample_host row ''c'')) = None)
     (column_of ''c'' [Str ''a'', Str ''b'', Str ''a'', Str ''a'', Str ''c'']) \<and>
   list_all (\<lambda>k. \<not> is_array_index k)
     (column_strings sample_host
        (column_of ''c'' [Str ''a'', Str ''b'', Str ''a'', Str ''a'', Str ''c'']) ''c'') \<and>
   (\<exists>vcs. getValueCounts sample_host
            (column_of ''c'' [Str ''a'', Str ''b'', Str ''a'', Str ''a'', Str ''c'']) ''c'' = Inr vcs \<and>
          sorted_wrt (\<lambda>a b. count_num b \<le> count_num a) vcs \<and>
          (\<forall>n. filter (\<lambda>e. count_num e = n) vcs =
                filter (\<lambda>e. count_num e = n)
                  (map (value_count (column_strings sample_host
                          (column_of ''c'' [Str ''a'', Str ''b'', Str ''a'', Str ''a'', Str ''c'']) ''c''))
                     (first_seen (column_strings sample_host
                          (column_of ''c'' [Str ''a'', Str ''b'', Str ''a'', Str ''a'', Str ''c'']) ''c''))))) \<and>
   getValueCounts sample_host
     (column_of ''c'' [Str ''a'', Str ''b'', Str ''a'', Str ''a'', Str ''c'']) ''c'' =
     Inr [\<lparr>value' = Str ''a'', count' = Num (Fin 3)\<rparr>,
          \<lparr>value' = Str ''b'', count' = Num (Fin 1)\<rparr>,
          \<lparr>value' = Str ''c'', count' = Num (Fin 1)\<rparr>] \<and>
   getValueCounts sample_host (column_of ''c'' [Num (Fin 1), Str ''x'', Str ''1'']) ''c'' =
     Inr [\<lparr>value' = Str ''1'', count' = Num (Fin 2)\<rparr>,
          \<lparr>value' = Str ''x'', count' = Num (Fin 1)\<rparr>]"
proof -
  let ?data = "column_of ''c'' [Str ''a'', Str ''b'', Str ''a'', Str ''a'', Str ''c'']"
  have h: "\<forall>row \<in> set ?data.
      protoProp sample_host (String sample_host (row_get sample_host row ''c'')) = None"
    by (simp add: column_of_def sample_host_def object_prototype_def row_get_def)
  have i: "\<forall>k \<in> set (column_strings sample_host ?data ''c''). \<not> is_array_index k"
    by (simp add: column_strings_def column_of_def row_get_def is_array_index_def is_digit_def)
  have e1: "getValueCounts sample_host ?data ''c'' =
     Inr [\<lparr>value' = Str ''a'', count' = Num (Fin 3)\<rparr>,
          \<lparr>value' = Str ''b'', count' = Num (Fin 1)\<rparr>,
          \<lparr>value' = Str ''c'', count' = Num (Fin 1)\<rparr>]"
    by code_simp
  have e2: "getValueCounts sample_host (column_of ''c'' [Num (Fin 1), Str ''x'', Str ''1'']) ''c'' =
     Inr [\<lparr>value' = Str ''1'', count' = Num (Fin 2)\<rparr>,
          \<lparr>value' = Str ''x'', count' = Num (Fin 1)\<rparr>]"
    by code_simp
  from getValueCounts_order [OF h] i h e1 e2 show ?thesis
    unfolding list_all_iff by blast
qed

text \<open>
  Claim C8 as stated fails on ties between strings that are array indices: for the cells
  "2", "1" the entry of "1" comes first, and for the cells 10, 9, "b", "a" the order is
  9, 10, b, a, although "2" and 10 were met first. The last line shows why the amended claim
  excludes inherited names: for the cell "constructor" the count is not a number.
\<close>

theorem getValueCounts_ties_counterexample:
  "getValueCounts sample_host (column_of ''c'' [Str ''2'', Str ''1'']) ''c'' =
     Inr [\<lparr>value' = Str ''1'', count' = Num (Fin 1)\<rparr>,
          \<lparr>value' = Str ''2'', count' = Num (Fin 1)\<rparr>] \<and>
   getValueCounts sample_host (column_of ''c'' [Num (Fin 10), Num (Fin 9), Str ''b'', Str ''a'']) ''c'' =
     Inr [\<lparr>value' = Str ''9'', count' = Num (Fin 1)\<rparr>,
          \<lparr>value' = Str ''10'', count' = Num (Fin 1)\<rparr>,
          \<lparr>value' = Str ''b'', count' = Num (Fin 1)\<rparr>,
          \<lparr>value' = Str ''a'', count' = Num (Fin 1)\<rparr>] \<and>
   getValueCounts sample_host (column_of ''c'' [Str ''constructor'']) ''c'' =
     Inr [\<lparr>value' = Str ''constructor'',
           count' = Str ''function Object() { [native code] }1''\<rparr>]"
  by code_simp

section \<open>Properties of the regression\<close>

























text \<open>
  Claim C1 at its own example. Fitting the collinear features \<open>[[1,2],[2,4],[3,6]]\<close> (with
  the targets \<open>[1,2,3]\<close>) throws nothing: the normal equations reach a zero pivot, the back
  substitution divides 0 by 0, and the model returned has \<open>NaN\<close> for its intercept, its
  coefficients and its score. All numbers met on the way are small integers, halves and
  quarters, so the rational arithmetic of the model is the arithmetic of the code here.
\<close>

theorem trainLinearRegression_collinear_NaN:
  "gaussianElimination [[Fin 3, Fin 6, Fin 12], [Fin 6, Fin 14, Fin 28], [Fin 12, Fin 28, Fin 56]]
     [Fin 6, Fin 14, Fin 28] = Inr [NaN, NaN, NaN] \<and>
   trainLinearRegression simple [[Fin 1, Fin 2], [Fin 2, Fin 4], [Fin 3, Fin 6]]
     [Fin 1, Fin 2, Fin 3] = Inr \<lparr>coefficients = [NaN, NaN], intercept = NaN, score = NaN\<rparr>"
  by code_simp

text \<open>
  Claim C6 at its input. With no rows, \<^verbatim>\<open>X[0]\<close> is \<^verbatim>\<open>undefined\<close> and reading its
  \<^verbatim>\<open>length\<close> throws a \<open>TypeError\<close>, outside the \<^verbatim>\<open>try\<close> block whose \<^verbatim>\<open>catch\<close> clause
  reports insufficient data.
\<close>

theorem trainLinearRegression_empty_TypeError:
  "trainLinearRegression simple [] y = Inl TypeError \<and> Inl TypeError \<noteq> Inl training_failed"
  by (simp add: trainLinearRegression_def training_failed_def)

end
